theory Spec2Isabelle
  imports Complex_Main "HOL-Library.AList"
begin

section \<open>MusicMasher: tracks, timeline and the audio service\<close>

text \<open>
  A shallow embedding of the three TypeScript classes that decide which tracks sound:
  \<^verbatim>\<open>AudioTrack\<close> (audio-track.model.ts), \<^verbatim>\<open>Timeline\<close> (timeline.model.ts) and
  \<^verbatim>\<open>AudioService\<close> (audio.service.ts).

  Objects are values: a method that mutates \<^verbatim>\<open>this\<close> takes the object and returns
  the updated one. Calls into the Web Audio backend are recorded, not interpreted: what
  the backend does with a node, an instant or a gain is outside the model.
\<close>

subsection \<open>JavaScript numbers\<close>

text \<open>
  Times (track positions, durations, the timeline position, the audio clock) are finite
  doubles, modelled as \<^typ>\<open>real\<close>. Comparisons of doubles are exact. A sum or a
  difference of doubles is the exact result rounded to a double, so every \<^verbatim>\<open>+\<close> and
  \<^verbatim>\<open>-\<close> of the source is written \<open>fl (a + b)\<close> and \<open>fl (a - b)\<close>, where the rounding
  \<open>fl\<close> is a parameter of every operation that adds or subtracts. Nothing is assumed of
  \<open>fl\<close>: what is proved for every \<open>fl\<close> holds for the rounding of the platform. In
  particular \<open>t < fl (a + d)\<close> and \<open>fl (t - a) < d\<close> are different tests.

  \<open>exact\<close> is the rounding that changes nothing. The concrete inputs below only add and
  subtract small integers, or add to zero, which doubles do exactly.
\<close>

definition exact :: "real \<Rightarrow> real" where
  "exact x = x"

text \<open>
  The zoom factor and the gains are clamped by \<^verbatim>\<open>Math.max\<close> and \<^verbatim>\<open>Math.min\<close>, whose
  argument can be any JavaScript number, \<^verbatim>\<open>NaN\<close> and the infinities included.
  \<^verbatim>\<open>a < b\<close> is false when either side is \<^verbatim>\<open>NaN\<close>; \<^verbatim>\<open>Math.max\<close> and \<^verbatim>\<open>Math.min\<close>
  return \<^verbatim>\<open>NaN\<close> when either argument is \<^verbatim>\<open>NaN\<close>.
\<close>

datatype number = NaN | NegInfinity | Num real | Infinity

fun number_less :: "number \<Rightarrow> number \<Rightarrow> bool" where
  "number_less NaN b = False"
| "number_less a NaN = False"
| "number_less a NegInfinity = False"
| "number_less NegInfinity b = True"
| "number_less Infinity b = False"
| "number_less (Num x) Infinity = True"
| "number_less (Num x) (Num y) = (x < y)"

definition Math_max :: "number \<Rightarrow> number \<Rightarrow> number" where
  "Math_max a b = (if a = NaN \<or> b = NaN then NaN else if number_less a b then b else a)"

definition Math_min :: "number \<Rightarrow> number \<Rightarrow> number" where
  "Math_min a b = (if a = NaN \<or> b = NaN then NaN else if number_less b a then b else a)"

subsection \<open>AudioTrack\<close>

datatype File = File (fileName: string)

text \<open>Of a decoded Web Audio buffer only \<^verbatim>\<open>buffer.duration\<close> is read by the model classes.\<close>

datatype AudioBuffer = AudioBuffer (bufferDuration: real)

text \<open>
  The fields of the class in declaration order. \<^verbatim>\<open>id\<close> and \<^verbatim>\<open>file\<close> carry a suffix
  because the bare names are taken in Isabelle. \<^verbatim>\<open>volume\<close> holds whatever \<^verbatim>\<open>setVolume\<close>
  stored, so it is a \<^typ>\<open>number\<close>.
\<close>

record AudioTrack =
  id_track :: string
  name :: string
  audioBuffer :: "AudioBuffer option"
  file_track :: File
  startTime :: real
  duration :: real
  volume :: number
  isMuted :: bool
  isSolo :: bool
  color :: string

text \<open>
  The constructor. \<^verbatim>\<open>generateId()\<close> and \<^verbatim>\<open>generateRandomColor()\<close> read the clock and the
  random source, so their results are parameters. \<^verbatim>\<open>id || this.generateId()\<close> takes the
  generated id when no id is passed and also when the empty string is passed.
\<close>

definition newAudioTrack :: "File \<Rightarrow> string option \<Rightarrow> string \<Rightarrow> string \<Rightarrow> AudioTrack" where
  "newAudioTrack f idArg generatedId randomColor =
     \<lparr> id_track = (case idArg of
                      None \<Rightarrow> generatedId
                    | Some i \<Rightarrow> if i = [] then generatedId else i),
       name = fileName f,
       audioBuffer = None,
       file_track = f,
       startTime = 0,
       duration = 0,
       volume = Num 1,
       isMuted = False,
       isSolo = False,
       color = randomColor \<rparr>"

definition setAudioBuffer :: "AudioBuffer \<Rightarrow> AudioTrack \<Rightarrow> AudioTrack" where
  "setAudioBuffer buf track =
     track\<lparr> audioBuffer := Some buf, AudioTrack.duration := bufferDuration buf \<rparr>"

definition setStartTime :: "real \<Rightarrow> AudioTrack \<Rightarrow> AudioTrack" where
  "setStartTime time track = track\<lparr> startTime := max 0 time \<rparr>"

definition setVolume :: "number \<Rightarrow> AudioTrack \<Rightarrow> AudioTrack" where
  "setVolume v track = track\<lparr> volume := Math_max (Num 0) (Math_min (Num 1) v) \<rparr>"

definition toggleMute :: "AudioTrack \<Rightarrow> AudioTrack" where
  "toggleMute track = track\<lparr> isMuted := \<not> isMuted track \<rparr>"

definition toggleSolo :: "AudioTrack \<Rightarrow> AudioTrack" where
  "toggleSolo track = track\<lparr> isSolo := \<not> isSolo track \<rparr>"

definition getEndTime :: "(real \<Rightarrow> real) \<Rightarrow> AudioTrack \<Rightarrow> real" where
  "getEndTime fl track = fl (startTime track + AudioTrack.duration track)"

subsection \<open>Timeline\<close>

record Timeline =
  tracks :: "AudioTrack list"
  currentTime :: real
  zoom :: number
  isPlaying :: bool
  bpm :: real
  duration :: real

definition newTimeline :: Timeline where
  "newTimeline =
     \<lparr> tracks = [], currentTime = 0, zoom = Num 50, isPlaying = False, bpm = 120,
       duration = 0 \<rparr>"

text \<open>
  \<^verbatim>\<open>updateDuration\<close> returns early with duration 0 on an empty track list; otherwise
  \<^verbatim>\<open>Math.max(...ends)\<close> runs over a non-empty argument list, and the result is
  raised to at least 60.
\<close>

definition updateDuration :: "(real \<Rightarrow> real) \<Rightarrow> Timeline \<Rightarrow> Timeline" where
  "updateDuration fl timeline =
     (case map (getEndTime fl) (tracks timeline) of
        [] \<Rightarrow> timeline\<lparr> Timeline.duration := 0 \<rparr>
      | e # es \<Rightarrow>
          (let maxEndTime = fold max es e
           in timeline\<lparr> Timeline.duration := max maxEndTime 60 \<rparr>))"

definition addTrack :: "(real \<Rightarrow> real) \<Rightarrow> AudioTrack \<Rightarrow> Timeline \<Rightarrow> Timeline" where
  "addTrack fl track timeline =
     updateDuration fl (timeline\<lparr> tracks := tracks timeline @ [track] \<rparr>)"

definition removeTrack :: "(real \<Rightarrow> real) \<Rightarrow> string \<Rightarrow> Timeline \<Rightarrow> Timeline" where
  "removeTrack fl tid timeline =
     updateDuration fl
       (timeline\<lparr> tracks := filter (\<lambda>track. id_track track \<noteq> tid) (tracks timeline) \<rparr>)"

definition getTrack :: "string \<Rightarrow> Timeline \<Rightarrow> AudioTrack option" where
  "getTrack tid timeline = find (\<lambda>track. id_track track = tid) (tracks timeline)"

definition setCurrentTime :: "real \<Rightarrow> Timeline \<Rightarrow> Timeline" where
  "setCurrentTime time timeline =
     timeline\<lparr> currentTime := max 0 (min time (Timeline.duration timeline)) \<rparr>"

definition setZoom :: "number \<Rightarrow> Timeline \<Rightarrow> Timeline" where
  "setZoom z timeline = timeline\<lparr> zoom := Math_max (Num 10) (Math_min (Num 200) z) \<rparr>"

definition getActiveTracks :: "(real \<Rightarrow> real) \<Rightarrow> real \<Rightarrow> Timeline \<Rightarrow> AudioTrack list" where
  "getActiveTracks fl time timeline =
     filter (\<lambda>track. time \<ge> startTime track \<and> time < getEndTime fl track) (tracks timeline)"

definition getSoloTracks :: "Timeline \<Rightarrow> AudioTrack list" where
  "getSoloTracks timeline = filter isSolo (tracks timeline)"


subsection \<open>AudioService\<close>

text \<open>
  A buffer source node as the service builds it: the buffer it plays and the value
  assigned to the gain node it is connected to, which is the track's volume.
\<close>

record AudioBufferSourceNode =
  buffer :: AudioBuffer
  gain :: number

text \<open>
  What the service asks of the Web Audio backend: \<^verbatim>\<open>source.start(when, offset)\<close> and
  \<^verbatim>\<open>source.stop()\<close>.
\<close>

datatype BackendCall =
    is_SourceStart: SourceStart (node: AudioBufferSourceNode) (startWhen: real) (startOffset: real)
  | is_SourceStop: SourceStop (node: AudioBufferSourceNode)

text \<open>
  The service's state. \<^verbatim>\<open>activeSources\<close> is a JavaScript \<^verbatim>\<open>Map\<close>: an association list
  in insertion order, where \<^verbatim>\<open>set\<close> is \<^const>\<open>AList.update\<close> (replace in place or append),
  \<^verbatim>\<open>has\<close>/\<^verbatim>\<open>get\<close> are \<^const>\<open>map_of\<close> and \<^verbatim>\<open>delete\<close> is \<^const>\<open>AList.delete\<close>.
  \<^verbatim>\<open>contextTime\<close> is \<^verbatim>\<open>audioContext.currentTime\<close>, \<^verbatim>\<open>masterGain\<close> the master gain
  node's value, and \<^verbatim>\<open>calls\<close> the backend calls issued so far, oldest first.
\<close>

record AudioService =
  activeSources :: "(string \<times> AudioBufferSourceNode) list"
  contextTime :: real
  masterGain :: number
  calls :: "BackendCall list"

definition newAudioService :: "real \<Rightarrow> AudioService" where
  "newAudioService now =
     \<lparr> activeSources = [], contextTime = now, masterGain = Num 1, calls = [] \<rparr>"

text \<open>
  \<^verbatim>\<open>playTrack\<close>: start one track. The result is the started node, or \<^verbatim>\<open>null\<close>.
  It does not look the track up in \<^verbatim>\<open>activeSources\<close> before starting.
\<close>

definition playTrack ::
  "(real \<Rightarrow> real) \<Rightarrow> AudioTrack \<Rightarrow> real \<Rightarrow> real option \<Rightarrow> AudioService
     \<Rightarrow> AudioBufferSourceNode option \<times> AudioService" where
  "playTrack fl track timelineTime contextStartTime s =
     (case audioBuffer track of
        None \<Rightarrow> (None, s)
      | Some buf \<Rightarrow>
          if isMuted track then (None, s)
          else if timelineTime < startTime track \<or> timelineTime \<ge> getEndTime fl track
          then (None, s)
          else
            (let source = \<lparr> buffer = buf, gain = volume track \<rparr>;
                 bufferOffset = max 0 (fl (timelineTime - startTime track));
                 when = (case contextStartTime of
                           Some t \<Rightarrow> t
                         | None \<Rightarrow> fl (contextTime s + 0.01))
             in if bufferOffset < AudioTrack.duration track
                then (Some source,
                      s\<lparr> calls := calls s @ [SourceStart source when bufferOffset],
                         activeSources := AList.update (id_track track) source (activeSources s) \<rparr>)
                else (None, s)))"

text \<open>
  \<^verbatim>\<open>playTracks\<close>, first step: the filter that picks the tracks to start. The checks
  are in the source's order: already playing, no buffer, muted, not soloed while a
  solo exists, and last the time range.
\<close>

definition tracksToStart ::
  "(real \<Rightarrow> real) \<Rightarrow> AudioTrack list \<Rightarrow> real \<Rightarrow> bool \<Rightarrow> AudioService
     \<Rightarrow> AudioTrack list" where
  "tracksToStart fl trs time hasSoloTracks s =
     filter (\<lambda>track.
        if map_of (activeSources s) (id_track track) \<noteq> None then False
        else if audioBuffer track = None then False
        else if isMuted track then False
        else if hasSoloTracks \<and> \<not> isSolo track then False
        else time \<ge> startTime track \<and> time < getEndTime fl track) trs"

text \<open>
  Second step: the first \<^verbatim>\<open>forEach\<close>, which builds \<^verbatim>\<open>sourcesToStart\<close>. A track with no
  buffer, or whose offset has reached its duration, contributes nothing. The offset test
  works on the rounded difference and the filter's range test on the rounded sum, so a
  track can pass the filter and still be dropped here.
\<close>

record SourceToStart =
  source :: AudioBufferSourceNode
  trackId :: string
  bufferOffset :: real

fun prepareSources :: "(real \<Rightarrow> real) \<Rightarrow> real \<Rightarrow> AudioTrack list \<Rightarrow> SourceToStart list" where
  "prepareSources fl time [] = []"
| "prepareSources fl time (track # rest) =
     (case audioBuffer track of
        None \<Rightarrow> prepareSources fl time rest
      | Some buf \<Rightarrow>
          (let offset = max 0 (fl (time - startTime track))
           in if offset \<ge> AudioTrack.duration track then prepareSources fl time rest
              else \<lparr> source = \<lparr> buffer = buf, gain = volume track \<rparr>,
                     trackId = id_track track,
                     bufferOffset = offset \<rparr> # prepareSources fl time rest))"

text \<open>
  Third step: the second \<^verbatim>\<open>forEach\<close>, which starts every prepared source at
  \<^verbatim>\<open>syncStartTime\<close> and registers it under its track id.
\<close>

fun startSources :: "real \<Rightarrow> SourceToStart list \<Rightarrow> AudioService \<Rightarrow> AudioService" where
  "startSources syncStartTime [] s = s"
| "startSources syncStartTime (e # es) s =
     startSources syncStartTime es
       (s\<lparr> calls := calls s @ [SourceStart (source e) syncStartTime (bufferOffset e)],
           activeSources := AList.update (trackId e) (source e) (activeSources s) \<rparr>)"

definition playTracks ::
  "(real \<Rightarrow> real) \<Rightarrow> AudioTrack list \<Rightarrow> real \<Rightarrow> bool \<Rightarrow> AudioService \<Rightarrow> AudioService" where
  "playTracks fl trs time hasSoloTracks s =
     (let toStart = tracksToStart fl trs time hasSoloTracks s
      in if length toStart = 0 then s
         else
           (let syncStartTime = fl (contextTime s + 0.05)
            in startSources syncStartTime (prepareSources fl time toStart) s))"

definition updatePlayback ::
  "(real \<Rightarrow> real) \<Rightarrow> AudioTrack list \<Rightarrow> real \<Rightarrow> bool \<Rightarrow> AudioService \<Rightarrow> AudioService" where
  "updatePlayback fl trs time hasSoloTracks s = playTracks fl trs time hasSoloTracks s"

text \<open>The \<^verbatim>\<open>ended\<close> listener that \<^verbatim>\<open>playTracks\<close> attaches to each started source.\<close>

definition onEnded :: "string \<Rightarrow> AudioService \<Rightarrow> AudioService" where
  "onEnded tid s = s\<lparr> activeSources := AList.delete tid (activeSources s) \<rparr>"

definition stopAll :: "AudioService \<Rightarrow> AudioService" where
  "stopAll s =
     s\<lparr> calls := calls s @ map (\<lambda>(tid, src). SourceStop src) (activeSources s),
        activeSources := [] \<rparr>"

definition stopTrack :: "string \<Rightarrow> AudioService \<Rightarrow> AudioService" where
  "stopTrack tid s =
     (case map_of (activeSources s) tid of
        None \<Rightarrow> s
      | Some src \<Rightarrow>
          s\<lparr> calls := calls s @ [SourceStop src],
             activeSources := AList.delete tid (activeSources s) \<rparr>)"

definition setMasterVolume :: "number \<Rightarrow> AudioService \<Rightarrow> AudioService" where
  "setMasterVolume v s = s\<lparr> masterGain := Math_max (Num 0) (Math_min (Num 1) v) \<rparr>"

subsection \<open>An imported track\<close>

text \<open>
  What \<^verbatim>\<open>TimelineService.addTrack\<close> does to a file before it appends the track: construct,
  attach the decoded buffer, place on the timeline. Used for the concrete inputs below.
\<close>

definition importedTrack :: "string \<Rightarrow> real \<Rightarrow> real \<Rightarrow> AudioTrack" where
  "importedTrack i start len =
     setStartTime start
       (setAudioBuffer (AudioBuffer len)
          (newAudioTrack (File i) (Some i) ''track_0'' ''#FF6B6B''))"

section \<open>Facts used throughout\<close>

text \<open>
  Unfolding the operations that build the concrete tracks, timelines and services.
\<close>

lemmas fixture_defs = importedTrack_def setStartTime_def setAudioBuffer_def newAudioTrack_def
  toggleMute_def toggleSolo_def newTimeline_def newAudioService_def exact_def

text \<open>
  \<^verbatim>\<open>updateDuration\<close> writes the duration and nothing else; \<^verbatim>\<open>Math.max\<close> over a
  non-empty spread is the maximum of the list.
\<close>

lemma tracks_updateDuration: "tracks (updateDuration fl timeline) = tracks timeline"
  by (simp add: updateDuration_def split: list.splits)

lemma fold_max_Max: "fold max es (e::real) = Max (set (e # es))"
  using Max.set_eq_fold [of e es] by simp

section \<open>AudioTrack and Timeline\<close>

text \<open>
  C10. \<^verbatim>\<open>toggleMute\<close> is an involution and changes only \<^verbatim>\<open>isMuted\<close>: every other field
  of the track keeps its value, and \<^verbatim>\<open>isMuted\<close> is negated. The same holds for
  \<^verbatim>\<open>toggleSolo\<close> and \<^verbatim>\<open>isSolo\<close>.
\<close>

theorem toggle_involution_frame:
  "toggleMute (toggleMute track) = track
   \<and> toggleMute track = track\<lparr> isMuted := \<not> isMuted track \<rparr>
   \<and> isMuted (toggleMute track) = (\<not> isMuted track)
   \<and> id_track (toggleMute track) = id_track track
   \<and> name (toggleMute track) = name track
   \<and> audioBuffer (toggleMute track) = audioBuffer track
   \<and> file_track (toggleMute track) = file_track track
   \<and> startTime (toggleMute track) = startTime track
   \<and> AudioTrack.duration (toggleMute track) = AudioTrack.duration track
   \<and> volume (toggleMute track) = volume track
   \<and> isSolo (toggleMute track) = isSolo track
   \<and> color (toggleMute track) = color track
   \<and> toggleSolo (toggleSolo track) = track
   \<and> toggleSolo track = track\<lparr> isSolo := \<not> isSolo track \<rparr>
   \<and> isSolo (toggleSolo track) = (\<not> isSolo track)
   \<and> id_track (toggleSolo track) = id_track track
   \<and> name (toggleSolo track) = name track
   \<and> audioBuffer (toggleSolo track) = audioBuffer track
   \<and> file_track (toggleSolo track) = file_track track
   \<and> startTime (toggleSolo track) = startTime track
   \<and> AudioTrack.duration (toggleSolo track) = AudioTrack.duration track
   \<and> volume (toggleSolo track) = volume track
   \<and> isMuted (toggleSolo track) = isMuted track
   \<and> color (toggleSolo track) = color track"
  by (simp add: toggleMute_def toggleSolo_def)

text \<open>
  C9. \<^verbatim>\<open>setZoom(NaN)\<close> stores \<^verbatim>\<open>NaN\<close> as the zoom and \<^verbatim>\<open>setVolume(NaN)\<close> stores
  \<^verbatim>\<open>NaN\<close> as the volume: \<^verbatim>\<open>Math.min\<close> and \<^verbatim>\<open>Math.max\<close> hand \<^verbatim>\<open>NaN\<close> through, so this one
  input is not clamped. Every other number is: a finite value below the range is stored
  as the lower bound, one above it as the upper bound, one inside it unchanged, and the
  infinities are stored as the bounds. In particular \<^verbatim>\<open>setZoom(500)\<close> stores 200,
  \<^verbatim>\<open>setZoom(1)\<close> stores 10 and \<^verbatim>\<open>setVolume(-0.5)\<close> stores 0.
\<close>

theorem clamp_hands_NaN_through:
  "zoom (setZoom NaN timeline) = NaN
   \<and> volume (setVolume NaN track) = NaN
   \<and> zoom (setZoom (Num z) timeline) = Num (if z < 10 then 10 else if 200 < z then 200 else z)
   \<and> zoom (setZoom Infinity timeline) = Num 200
   \<and> zoom (setZoom NegInfinity timeline) = Num 10
   \<and> volume (setVolume (Num v) track) = Num (if v < 0 then 0 else if 1 < v then 1 else v)
   \<and> volume (setVolume Infinity track) = Num 1
   \<and> volume (setVolume NegInfinity track) = Num 0
   \<and> zoom (setZoom (Num 500) timeline) = Num 200
   \<and> zoom (setZoom (Num 1) timeline) = Num 10
   \<and> volume (setVolume (Num (- 0.5)) track) = Num 0"
  by (simp add: setZoom_def setVolume_def Math_max_def Math_min_def)

text \<open>
  C6. \<^verbatim>\<open>getActiveTracks(t)\<close> returns, in timeline order, exactly the tracks whose half-open
  interval from \<open>startTime\<close> to \<open>startTime + duration\<close>, the sum as the program computes
  it, contains \<open>t\<close>. A track placed at 2 with duration 3 is active at 4.999 and is not
  active at 5.
\<close>

theorem getActiveTracks_half_open:
  "getActiveTracks fl t timeline =
     filter (\<lambda>track. startTime track \<le> t \<and> t < fl (startTime track + AudioTrack.duration track))
       (tracks timeline)
   \<and> set (getActiveTracks fl t timeline) =
       {track. track \<in> set (tracks timeline)
          \<and> startTime track \<le> t \<and> t < fl (startTime track + AudioTrack.duration track)}
   \<and> track\<lparr> startTime := 2, AudioTrack.duration := 3 \<rparr>
       \<in> set (getActiveTracks exact 4.999
                (addTrack exact (track\<lparr> startTime := 2, AudioTrack.duration := 3 \<rparr>) timeline))
   \<and> track\<lparr> startTime := 2, AudioTrack.duration := 3 \<rparr>
       \<notin> set (getActiveTracks exact 5
                (addTrack exact (track\<lparr> startTime := 2, AudioTrack.duration := 3 \<rparr>) timeline))"
  by (simp add: getActiveTracks_def getEndTime_def addTrack_def tracks_updateDuration exact_def)

text \<open>
  C3, as the code has it. After \<^verbatim>\<open>updateDuration\<close> the duration of a timeline with at
  least one track is the larger of 60 and the greatest end time of its tracks, so it is
  60 when every track ends by 60; the duration of a timeline with no track is 0, not 60.
  \<^verbatim>\<open>addTrack\<close> leaves at least one track, so after it the floor always applies.
  \<^verbatim>\<open>updateDuration\<close> does not touch the track list.
\<close>

theorem updateDuration_floor:
  "Timeline.duration (updateDuration fl timeline) =
     (if tracks timeline = [] then 0
      else max (Max (getEndTime fl ` set (tracks timeline))) 60)
   \<and> (tracks timeline \<noteq> [] \<and> (\<forall>track \<in> set (tracks timeline). getEndTime fl track \<le> 60)
        \<longrightarrow> Timeline.duration (updateDuration fl timeline) = 60)
   \<and> Timeline.duration (addTrack fl track timeline) =
       max (Max (getEndTime fl ` set (tracks timeline @ [track]))) 60
   \<and> tracks (updateDuration fl timeline) = tracks timeline"
proof -
  have d: "Timeline.duration (updateDuration fl timeline) =
     (if tracks timeline = [] then 0
      else max (Max (getEndTime fl ` set (tracks timeline))) 60)"
    by (cases "tracks timeline") (simp_all add: updateDuration_def fold_max_Max)
  have f: "Timeline.duration (updateDuration fl timeline) = 60"
    if "tracks timeline \<noteq> []" and "\<forall>track \<in> set (tracks timeline). getEndTime fl track \<le> 60"
  proof -
    have "Max (getEndTime fl ` set (tracks timeline)) \<le> 60"
      using that by simp
    with d that(1) show ?thesis by (simp add: max_def)
  qed
  have a: "Timeline.duration (addTrack fl track timeline) =
       max (Max (getEndTime fl ` set (tracks timeline @ [track]))) 60"
    unfolding addTrack_def
    by (cases "tracks timeline") (simp_all add: updateDuration_def fold_max_Max)
  show ?thesis using d f a tracks_updateDuration by blast
qed

text \<open>The floor at work: one track that ends at 5 gives a duration of 60.\<close>

theorem updateDuration_floor_witness:
  "tracks (addTrack exact (importedTrack ''a'' 0 5) newTimeline) \<noteq> []
   \<and> list_all (\<lambda>track. getEndTime exact track \<le> 60)
       (tracks (addTrack exact (importedTrack ''a'' 0 5) newTimeline))
   \<and> Timeline.duration
       (updateDuration exact (addTrack exact (importedTrack ''a'' 0 5) newTimeline)) = 60"
  using updateDuration_floor [of exact "addTrack exact (importedTrack ''a'' 0 5) newTimeline"]
  by (simp add: addTrack_def tracks_updateDuration getEndTime_def fixture_defs)

text \<open>
  The empty timeline reports 0 where C3 promises 60, and so does a timeline whose only
  track has been removed.
\<close>

theorem updateDuration_empty_counterexample:
  "tracks newTimeline = []
   \<and> Timeline.duration (updateDuration exact newTimeline) = 0
   \<and> Timeline.duration (updateDuration exact newTimeline) \<noteq> 60
   \<and> Timeline.duration
       (removeTrack exact ''a'' (addTrack exact (importedTrack ''a'' 0 5) newTimeline)) = 0"
  by (simp add: updateDuration_def addTrack_def removeTrack_def fixture_defs)

section \<open>The scheduler: \<^verbatim>\<open>playTracks\<close> step by step\<close>

text \<open>
  The second \<^verbatim>\<open>forEach\<close> appends one start per prepared source, all at the instant it is
  given, registers the ids, keeps every other entry of the registry and keeps its keys
  distinct.
\<close>

lemma calls_startSources:
  "calls (startSources w es s) =
     calls s @ map (\<lambda>e. SourceStart (source e) w (bufferOffset e)) es"
  by (induction es arbitrary: s) simp_all

lemma keys_startSources:
  "fst ` set (activeSources (startSources w es s)) =
     fst ` set (activeSources s) \<union> trackId ` set es"
  by (induction es arbitrary: s) (auto simp: dom_update)


lemma distinct_startSources:
  "distinct (map fst (activeSources s)) \<Longrightarrow>
     distinct (map fst (activeSources (startSources w es s)))"
  by (induction es arbitrary: s) (simp_all add: distinct_update)

text \<open>
  The first \<^verbatim>\<open>forEach\<close> keeps the tracks that have a buffer and whose offset is below
  their duration, in order; the filter keeps the tracks that pass its five checks.
\<close>

lemma prepareSources_eq:
  "prepareSources fl t trs =
     map (\<lambda>track. \<lparr> source = \<lparr> buffer = the (audioBuffer track), gain = volume track \<rparr>,
                    trackId = id_track track,
                    bufferOffset = max 0 (fl (t - startTime track)) \<rparr>)
       (filter (\<lambda>track. audioBuffer track \<noteq> None
                  \<and> max 0 (fl (t - startTime track)) < AudioTrack.duration track) trs)"
  by (induction trs) (auto simp: Let_def split: option.splits)

lemma tracksToStart_iff:
  "track \<in> set (tracksToStart fl trs t h s) \<longleftrightarrow>
     track \<in> set trs \<and> map_of (activeSources s) (id_track track) = None
     \<and> audioBuffer track \<noteq> None \<and> \<not> isMuted track \<and> (h \<longrightarrow> isSolo track)
     \<and> startTime track \<le> t \<and> t < getEndTime fl track"
  by (auto simp: tracksToStart_def)


lemma prepareSources_tracksToStart:
  "prepareSources fl t (tracksToStart fl trs t h s) =
     map (\<lambda>track. \<lparr> source = \<lparr> buffer = the (audioBuffer track), gain = volume track \<rparr>,
                    trackId = id_track track,
                    bufferOffset = max 0 (fl (t - startTime track)) \<rparr>)
       (filter (\<lambda>track. max 0 (fl (t - startTime track)) < AudioTrack.duration track)
          (tracksToStart fl trs t h s))"
proof -
  have "filter (\<lambda>track. audioBuffer track \<noteq> None
                  \<and> max 0 (fl (t - startTime track)) < AudioTrack.duration track)
          (tracksToStart fl trs t h s) =
        filter (\<lambda>track. max 0 (fl (t - startTime track)) < AudioTrack.duration track)
          (tracksToStart fl trs t h s)"
    by (rule filter_cong) (auto simp: tracksToStart_iff)
  then show ?thesis by (simp add: prepareSources_eq)
qed

lemma playTracks_eq:
  "playTracks fl trs t h s =
     startSources (fl (contextTime s + 0.05))
       (prepareSources fl t (tracksToStart fl trs t h s)) s"
  by (cases "tracksToStart fl trs t h s") (simp_all add: playTracks_def Let_def)

lemma calls_playTracks:
  "calls (playTracks fl trs t h s) =
     calls s @ map (\<lambda>track. SourceStart \<lparr> buffer = the (audioBuffer track), gain = volume track \<rparr>
                               (fl (contextTime s + 0.05)) (max 0 (fl (t - startTime track))))
                (filter (\<lambda>track. max 0 (fl (t - startTime track)) < AudioTrack.duration track)
                   (tracksToStart fl trs t h s))"
  by (simp add: playTracks_eq calls_startSources prepareSources_tracksToStart comp_def)

lemma keys_playTracks:
  "fst ` set (activeSources (playTracks fl trs t h s)) =
     fst ` set (activeSources s) \<union>
     id_track ` {track \<in> set (tracksToStart fl trs t h s).
                   max 0 (fl (t - startTime track)) < AudioTrack.duration track}"
  by (auto simp: playTracks_eq keys_startSources prepareSources_tracksToStart image_image)

lemma map_of_None_iff: "map_of al k = None \<longleftrightarrow> k \<notin> fst ` set al"
  by (simp add: map_of_eq_None_iff)

text \<open>
  After a pass, a track that the filter still picks is one that the first \<^verbatim>\<open>forEach\<close>
  drops: had it been kept, the pass would have registered it.
\<close>

lemma prepareSources_after_playTracks:
  "prepareSources fl t (tracksToStart fl trs t h (playTracks fl trs t h s)) = []"
proof -
  have "\<not> max 0 (fl (t - startTime track)) < AudioTrack.duration track"
    if a: "track \<in> set (tracksToStart fl trs t h (playTracks fl trs t h s))" for track
  proof
    assume ok: "max 0 (fl (t - startTime track)) < AudioTrack.duration track"
    from a have n: "id_track track \<notin> fst ` set (activeSources (playTracks fl trs t h s))"
      by (simp add: tracksToStart_iff map_of_None_iff)
    then have "id_track track \<notin> fst ` set (activeSources s)"
      by (simp add: keys_playTracks)
    with a have "track \<in> set (tracksToStart fl trs t h s)"
      by (simp add: tracksToStart_iff map_of_None_iff)
    with ok have "id_track track \<in> fst ` set (activeSources (playTracks fl trs t h s))"
      by (auto simp: keys_playTracks)
    with n show False by simp
  qed
  then show ?thesis
    by (simp add: prepareSources_tracksToStart filter_empty_conv)
qed

text \<open>
  The two range tests are not the same test. A track that the filter picks because the
  position is below the rounded sum \<open>fl (startTime + duration)\<close> is dropped by the first
  \<^verbatim>\<open>forEach\<close> when the rounded difference \<open>fl (position - startTime)\<close> has reached the
  duration, and the pass then starts nothing. With a rounding that sends the sum of 0.3
  and 0.7 to 1 and the difference of 0.9999999999999999 and 0.3 to 0.7, this happens to
  a clip of length 0.7 placed at 0.3 when the position is 0.9999999999999999.
\<close>

lemma picked_then_dropped:
  assumes "map_of (activeSources s) (id_track track) = None"
    and "audioBuffer track \<noteq> None" and "\<not> isMuted track" and "h \<longrightarrow> isSolo track"
    and "startTime track \<le> t" and "t < fl (startTime track + AudioTrack.duration track)"
    and "AudioTrack.duration track \<le> max 0 (fl (t - startTime track))"
  shows "tracksToStart fl [track] t h s = [track] \<and> playTracks fl [track] t h s = s"
proof -
  from assms have p: "tracksToStart fl [track] t h s = [track]"
    by (simp add: tracksToStart_def getEndTime_def)
  from assms(7) have "\<not> max 0 (fl (t - startTime track)) < AudioTrack.duration track"
    by (simp only: not_less)
  then have "prepareSources fl t [track] = []"
    unfolding prepareSources_eq by (simp only: filter.simps list.map simp_thms if_False)
  with p show ?thesis
    by (simp add: playTracks_eq)
qed

lemma picked_then_dropped_example:
  assumes "fl (0.3 + 0.7) = 1" and "fl (0.9999999999999999 - 0.3) = 0.7"
  shows "tracksToStart fl [importedTrack ''h'' 0.3 0.7] 0.9999999999999999 False
           (newAudioService 0) = [importedTrack ''h'' 0.3 0.7]
         \<and> playTracks fl [importedTrack ''h'' 0.3 0.7] 0.9999999999999999 False
             (newAudioService 0) = newAudioService 0"
proof (rule picked_then_dropped)
  show "map_of (activeSources (newAudioService 0)) (id_track (importedTrack ''h'' 0.3 0.7)) = None"
    by (simp add: fixture_defs)
  show "audioBuffer (importedTrack ''h'' 0.3 0.7) \<noteq> None"
    by (simp add: fixture_defs)
  show "\<not> isMuted (importedTrack ''h'' 0.3 0.7)"
    by (simp add: fixture_defs)
  show "False \<longrightarrow> isSolo (importedTrack ''h'' 0.3 0.7)"
    by simp
  have st: "startTime (importedTrack ''h'' 0.3 0.7) = 0.3"
    and du: "AudioTrack.duration (importedTrack ''h'' 0.3 0.7) = 0.7"
    by (simp_all add: fixture_defs)
  show "startTime (importedTrack ''h'' 0.3 0.7) \<le> 0.9999999999999999"
    unfolding st by simp
  show "0.9999999999999999
          < fl (startTime (importedTrack ''h'' 0.3 0.7)
                + AudioTrack.duration (importedTrack ''h'' 0.3 0.7))"
    unfolding st du assms(1) by simp
  show "AudioTrack.duration (importedTrack ''h'' 0.3 0.7)
          \<le> max 0 (fl (0.9999999999999999 - startTime (importedTrack ''h'' 0.3 0.7)))"
    unfolding st du assms(2) by simp
qed

text \<open>
  On the batch path a track is picked only when its id is not registered, and the
  registry's keys stay distinct.
\<close>

lemma tracksToStart_unregistered:
  "track \<in> set (tracksToStart fl trs t h s) \<Longrightarrow>
     map_of (activeSources s) (id_track track) = None"
  by (simp add: tracksToStart_iff)

lemma distinct_playTracks:
  "distinct (map fst (activeSources s)) \<Longrightarrow>
     distinct (map fst (activeSources (playTracks fl trs t h s)))"
  by (simp add: playTracks_eq distinct_startSources)

section \<open>The scheduler: what a pass does\<close>

text \<open>
  C7. Running the reconciliation twice in a row, with the same tracks, position and solo
  flag and nothing happening in between, leaves the service exactly as the first run
  left it: the second run issues no backend call and the registry is the same. The same
  holds when only the audio clock has moved on between the two runs.
\<close>

theorem playTracks_idempotent:
  "playTracks fl trs t h (playTracks fl trs t h s) = playTracks fl trs t h s
   \<and> updatePlayback fl trs t h (updatePlayback fl trs t h s) = updatePlayback fl trs t h s
   \<and> calls (updatePlayback fl trs t h (updatePlayback fl trs t h s)) =
       calls (updatePlayback fl trs t h s)
   \<and> activeSources (updatePlayback fl trs t h (updatePlayback fl trs t h s)) =
       activeSources (updatePlayback fl trs t h s)
   \<and> updatePlayback fl trs t h ((updatePlayback fl trs t h s)\<lparr> contextTime := now \<rparr>) =
       (updatePlayback fl trs t h s)\<lparr> contextTime := now \<rparr>"
proof -
  have again: "playTracks fl trs t h (playTracks fl trs t h s) = playTracks fl trs t h s"
    by (simp add: playTracks_eq [of fl trs t h "playTracks fl trs t h s"]
          prepareSources_after_playTracks)
  have "tracksToStart fl trs t h ((playTracks fl trs t h s)\<lparr> contextTime := now \<rparr>) =
          tracksToStart fl trs t h (playTracks fl trs t h s)"
    by (simp add: tracksToStart_def)
  then have later: "playTracks fl trs t h ((playTracks fl trs t h s)\<lparr> contextTime := now \<rparr>) =
          (playTracks fl trs t h s)\<lparr> contextTime := now \<rparr>"
    by (simp add: playTracks_eq [of fl trs t h "(playTracks fl trs t h s)\<lparr> contextTime := now \<rparr>"]
          prepareSources_after_playTracks)
  from again later show ?thesis by (simp add: updatePlayback_def)
qed

text \<open>
  C5. The calls a pass issues are all starts, one per source the first \<^verbatim>\<open>forEach\<close>
  prepared, and every one of them carries the same instant: \<^verbatim>\<open>audioContext.currentTime + 0.05\<close>,
  computed once for the pass. \<^verbatim>\<open>updatePlayback\<close> is \<^verbatim>\<open>playTracks\<close>.
\<close>

theorem playTracks_shared_instant:
  "take (length (calls s)) (calls (playTracks fl trs t h s)) = calls s
   \<and> length (drop (length (calls s)) (calls (playTracks fl trs t h s)))
       = length (prepareSources fl t (tracksToStart fl trs t h s))
   \<and> (\<forall>c \<in> set (drop (length (calls s)) (calls (playTracks fl trs t h s))).
         is_SourceStart c \<and> startWhen c = fl (contextTime s + 0.05))
   \<and> updatePlayback fl trs t h s = playTracks fl trs t h s"
  by (auto simp: playTracks_eq calls_startSources updatePlayback_def)

text \<open>
  Two tracks that are both eligible at position 4: both starts are scheduled at the one
  instant 0.05 after the clock's 0.
\<close>

theorem playTracks_shared_instant_witness:
  "tracksToStart exact [importedTrack ''A'' 0 5, importedTrack ''B'' 3 5] 4 False
     (newAudioService 0)
     = [importedTrack ''A'' 0 5, importedTrack ''B'' 3 5]
   \<and> calls (playTracks exact [importedTrack ''A'' 0 5, importedTrack ''B'' 3 5] 4 False
              (newAudioService 0))
       = [SourceStart \<lparr> buffer = AudioBuffer 5, gain = Num 1 \<rparr> 0.05 4,
          SourceStart \<lparr> buffer = AudioBuffer 5, gain = Num 1 \<rparr> 0.05 1]
   \<and> list_all (\<lambda>c. is_SourceStart c \<and> startWhen c = 0.05)
       (calls (playTracks exact [importedTrack ''A'' 0 5, importedTrack ''B'' 3 5] 4 False
                 (newAudioService 0)))"
  using playTracks_shared_instant
    [of "newAudioService 0" exact "[importedTrack ''A'' 0 5, importedTrack ''B'' 3 5]" 4 False]
  by (simp add: playTracks_def tracksToStart_def getEndTime_def Let_def fixture_defs)

text \<open>
  C8. The first \<^verbatim>\<open>forEach\<close> computes \<open>max 0 (position - startTime)\<close> for each track and
  drops a track that has no buffer or whose offset has reached its duration. Every start
  a pass issues belongs to a track of the list, carries that offset, and the offset is
  below the track's duration. At position 10 a track placed at 4 is started at offset 6,
  and a track placed at 12 is not started.
\<close>

theorem playTracks_bufferOffset:
  "prepareSources fl t trs =
     map (\<lambda>track. \<lparr> source = \<lparr> buffer = the (audioBuffer track), gain = volume track \<rparr>,
                    trackId = id_track track,
                    bufferOffset = max 0 (fl (t - startTime track)) \<rparr>)
       (filter (\<lambda>track. audioBuffer track \<noteq> None
                  \<and> max 0 (fl (t - startTime track)) < AudioTrack.duration track) trs)
   \<and> (\<forall>c \<in> set (drop (length (calls s)) (calls (playTracks fl trs t h s))).
         \<exists>track \<in> set trs.
           c = SourceStart \<lparr> buffer = the (audioBuffer track), gain = volume track \<rparr>
                 (fl (contextTime s + 0.05)) (max 0 (fl (t - startTime track)))
           \<and> max 0 (fl (t - startTime track)) < AudioTrack.duration track)
   \<and> calls (playTracks exact [importedTrack ''a'' 4 20] 10 False (newAudioService 0))
       = [SourceStart \<lparr> buffer = AudioBuffer 20, gain = Num 1 \<rparr> 0.05 6]
   \<and> playTracks exact [importedTrack ''b'' 12 20] 10 False (newAudioService 0)
       = newAudioService 0"
proof -
  have a: "\<exists>track \<in> set trs.
           c = SourceStart \<lparr> buffer = the (audioBuffer track), gain = volume track \<rparr>
                 (fl (contextTime s + 0.05)) (max 0 (fl (t - startTime track)))
           \<and> max 0 (fl (t - startTime track)) < AudioTrack.duration track"
    if "c \<in> set (drop (length (calls s)) (calls (playTracks fl trs t h s)))" for c
  proof -
    from that obtain track where tr: "track \<in> set (tracksToStart fl trs t h s)"
      and ok: "max 0 (fl (t - startTime track)) < AudioTrack.duration track"
      and c: "c = SourceStart \<lparr> buffer = the (audioBuffer track), gain = volume track \<rparr>
                 (fl (contextTime s + 0.05)) (max 0 (fl (t - startTime track)))"
      by (auto simp: calls_playTracks)
    from tr have "track \<in> set trs"
      by (simp add: tracksToStart_iff)
    with c ok show ?thesis by blast
  qed
  have e1: "calls (playTracks exact [importedTrack ''a'' 4 20] 10 False (newAudioService 0))
       = [SourceStart \<lparr> buffer = AudioBuffer 20, gain = Num 1 \<rparr> 0.05 6]"
    by (simp add: playTracks_def tracksToStart_def getEndTime_def fixture_defs)
  have e2: "playTracks exact [importedTrack ''b'' 12 20] 10 False (newAudioService 0)
       = newAudioService 0"
    by (simp add: playTracks_def tracksToStart_def getEndTime_def fixture_defs)
  from a e1 e2 prepareSources_eq [of fl t trs] show ?thesis by blast
qed

text \<open>
  Three tracks at position 10: the one placed at 4 starts at offset 6, the one placed at 12
  is not picked, and in the preparation step a clip of length 6 placed at 4 is dropped
  because its offset 6 has reached its duration.
\<close>

theorem playTracks_bufferOffset_witness:
  "calls (newAudioService 0) = []
   \<and> calls (playTracks exact
               [importedTrack ''a'' 4 20, importedTrack ''b'' 12 20, importedTrack ''c'' 4 6]
               10 False (newAudioService 0))
       = [SourceStart \<lparr> buffer = AudioBuffer 20, gain = Num 1 \<rparr> 0.05 6]
   \<and> map trackId
       (prepareSources exact 10
          [importedTrack ''a'' 4 20, importedTrack ''b'' 12 20, importedTrack ''c'' 4 6])
       = [''a'', ''b'']
   \<and> map bufferOffset
       (prepareSources exact 10
          [importedTrack ''a'' 4 20, importedTrack ''b'' 12 20, importedTrack ''c'' 4 6])
       = [6, 0]"
  using playTracks_bufferOffset
    [where fl = exact and t = 10 and s = "newAudioService 0" and h = False
       and trs = "[importedTrack ''a'' 4 20, importedTrack ''b'' 12 20, importedTrack ''c'' 4 6]"]
  by (simp add: playTracks_def tracksToStart_def getEndTime_def Let_def fixture_defs)







text \<open>
  C4. \<^verbatim>\<open>playTrack\<close> does not look the track up before it starts it: called for track a
  while a is registered, it issues a second start with no stop in between and replaces
  the registry entry. \<^verbatim>\<open>playTracks\<close> on the same state starts nothing.
\<close>

theorem playTrack_restarts_registered:
  "map_of (activeSources (playTracks exact [importedTrack ''a'' 0 5] 1 False (newAudioService 0)))
     ''a''
     = Some \<lparr> buffer = AudioBuffer 5, gain = Num 1 \<rparr>
   \<and> calls (playTracks exact [importedTrack ''a'' 0 5] 1 False (newAudioService 0))
       = [SourceStart \<lparr> buffer = AudioBuffer 5, gain = Num 1 \<rparr> 0.05 1]
   \<and> calls (snd (playTrack exact (importedTrack ''a'' 0 5) 2 None
               (playTracks exact [importedTrack ''a'' 0 5] 1 False (newAudioService 0))))
       = [SourceStart \<lparr> buffer = AudioBuffer 5, gain = Num 1 \<rparr> 0.05 1,
          SourceStart \<lparr> buffer = AudioBuffer 5, gain = Num 1 \<rparr> 0.01 2]
   \<and> playTracks exact [importedTrack ''a'' 0 5] 2 False
        (playTracks exact [importedTrack ''a'' 0 5] 1 False (newAudioService 0))
       = playTracks exact [importedTrack ''a'' 0 5] 1 False (newAudioService 0)"
  by (simp add: playTrack_def playTracks_def tracksToStart_def getEndTime_def Let_def fixture_defs)

end
